theory Spec2Isabelle
  imports Complex_Main
begin

section \<open>Conventions of the embedding\<close>

text \<open>
  The program is TypeScript and its \<^verbatim>\<open>number\<close> is an IEEE 754 double. A finite double
  is modelled by the real number it denotes. The load calculation multiplies, divides and
  adds, and there every operation is rounded as the machine rounds it (function \<open>fl\<close>
  below); a decimal literal of the source such as \<^verbatim>\<open>0.85\<close> is the double nearest to it.
  NaN, the infinities and the sign of zero are not modelled: the theorems speak about finite
  numbers and about runs in which no result reaches \<open>2\<^sup>1\<^sup>0\<^sup>2\<^sup>4\<close>. The validator and the
  equipment derivations only compare numbers and subtract a year from a year, which is
  exact for the integers that years are; there the numbers are kept as they are.
  \<^verbatim>\<open>null\<close> and \<^verbatim>\<open>undefined\<close> are both \<^term>\<open>None\<close>: the code never tells them apart.
  Strings are byte lists; a character outside ASCII stands as its UTF-8 bytes.
\<close>

definition rsquo :: string where
  \<comment> \<open>U+2019, the apostrophe used in the messages of the validator\<close>
  "rsquo = [CHR 0xE2, CHR 0x80, CHR 0x99]"

subsection \<open>Double arithmetic\<close>

text \<open>
  \<open>ilog2 n\<close> is the position of the leading bit of \<open>n\<close>, so \<open>exponent x\<close> is the integer
  \<open>e\<close> with \<open>2\<^sup>e \<le> \<bar>x\<bar> < 2\<^sup>e\<^sup>+\<^sup>1\<close> for \<open>x \<noteq> 0\<close>.
\<close>

fun ilog2 :: "nat \<Rightarrow> nat" where
  "ilog2 n = (if n < 2 then 0 else Suc (ilog2 (n div 2)))"

declare ilog2.simps [simp del]

definition exponent :: "real \<Rightarrow> int" where
  "exponent x =
     (if 1 \<le> \<bar>x\<bar> then int (ilog2 (nat \<lfloor>\<bar>x\<bar>\<rfloor>))
      else - int (ilog2 (nat (\<lceil>1 / \<bar>x\<bar>\<rceil> - 1))) - 1)"

text \<open>The nearest integer, a tie going to the even one.\<close>

definition rne :: "real \<Rightarrow> int" where
  "rne y =
     (let f = \<lfloor>y\<rfloor>; d = y - of_int f
      in if d < 1 / 2 then f else if 1 / 2 < d then f + 1 else if even f then f else f + 1)"

text \<open>
  \<open>fl x\<close> is the double nearest to \<open>x\<close>, a tie going to the even significand: doubles
  with exponent \<open>e\<close> are the multiples of \<open>2\<^sup>e\<^sup>-\<^sup>5\<^sup>2\<close>, and below \<open>2\<^sup>-\<^sup>1\<^sup>0\<^sup>2\<^sup>2\<close> the
  subnormal ones are the multiples of \<open>2\<^sup>-\<^sup>1\<^sup>0\<^sup>7\<^sup>4\<close>.
\<close>

definition fl :: "real \<Rightarrow> real" where
  "fl x =
     (if x = 0 then 0
      else
        (let s = max (exponent x) (- 1022) - 52
         in if 0 \<le> s then of_int (rne (x / 2 ^ nat s)) * 2 ^ nat s
            else of_int (rne (x * 2 ^ nat (- s))) / 2 ^ nat (- s)))"

text \<open>The operators \<^verbatim>\<open>*\<close>, \<^verbatim>\<open>/\<close> and \<^verbatim>\<open>+\<close> of the source.\<close>

definition fmul :: "real \<Rightarrow> real \<Rightarrow> real" where
  "fmul a b = fl (a * b)"

definition fdiv :: "real \<Rightarrow> real \<Rightarrow> real" where
  "fdiv a b = fl (a / b)"

definition fadd :: "real \<Rightarrow> real \<Rightarrow> real" where
  "fadd a b = fl (a + b)"

text \<open>
  \<^verbatim>\<open>Math.round\<close>: the nearest integer, a tie going up. On a double the result is exact.
\<close>

definition Math_round :: "real \<Rightarrow> int" where
  "Math_round x = \<lfloor>x + 1 / 2\<rfloor>"

section \<open>Exterior validation (route.ts)\<close>

datatype StoriesValue = StoriesNumber real | StoriesString string

record ExteriorAnalysis =
  stories :: "StoriesValue option"
  siding :: string
  windows :: string
  gutters :: string
  condition :: string
  confidence :: "real option"

record ValidationResult =
  issues :: "string list"
  needsClarification :: bool

definition issue_reupload :: string where
  "issue_reupload = ''I couldn'' @ rsquo @
     ''t confidently read this photo. Please upload a clearer exterior shot (front of the house).''"

definition issue_confidence :: string where
  "issue_confidence =
     ''Overall confidence is low. Please confirm a few key details (stories, siding type, and approximate window amount).''"

definition issue_stories :: string where
  "issue_stories = ''I couldn'' @ rsquo @
     ''t determine the number of stories. Please select: 1, 1.5, 2, or 3 stories.''"

definition issue_windows :: string where
  "issue_windows = ''I couldn'' @ rsquo @
     ''t clearly estimate window amount. Please choose: few, average, or many windows.''"

definition issue_siding :: string where
  "issue_siding =
     ''Siding type is unclear. Please choose the closest match: vinyl, wood, fiber cement, stucco, brick, or mixed.''"

text \<open>
  The four checks of \<^verbatim>\<open>validateExteriorAnalysis\<close>, each the condition of one
  \<^verbatim>\<open>if\<close> of the source, in the source's order.
\<close>

definition confidence_low :: "ExteriorAnalysis \<Rightarrow> bool" where
  "confidence_low a = ((case confidence a of None \<Rightarrow> 0 | Some c \<Rightarrow> c) < 0.75)"

definition stories_undetermined :: "ExteriorAnalysis \<Rightarrow> bool" where
  "stories_undetermined a =
     (ExteriorAnalysis.stories a = Some (StoriesString ''unknown'') \<or>
      ExteriorAnalysis.stories a = None)"

definition windows_undetermined :: "ExteriorAnalysis \<Rightarrow> bool" where
  "windows_undetermined a =
     (ExteriorAnalysis.windows a = ''unknown'' \<or> ExteriorAnalysis.windows a = '''' \<or>
      ExteriorAnalysis.windows a = ''unclear'')"

definition siding_undetermined :: "ExteriorAnalysis \<Rightarrow> bool" where
  "siding_undetermined a =
     (ExteriorAnalysis.siding a = ''unknown'' \<or> ExteriorAnalysis.siding a = '''')"

definition validateExteriorAnalysis :: "ExteriorAnalysis option \<Rightarrow> ValidationResult" where
  "validateExteriorAnalysis analysis =
     (case analysis of
        None \<Rightarrow> \<lparr>issues = [issue_reupload], needsClarification = True\<rparr>
      | Some a \<Rightarrow>
          (let issues1 = (if confidence_low a then [issue_confidence] else []);
               issues2 = issues1 @ (if stories_undetermined a then [issue_stories] else []);
               issues3 = issues2 @ (if windows_undetermined a then [issue_windows] else []);
               issues4 = issues3 @ (if siding_undetermined a then [issue_siding] else [])
           in \<lparr>issues = issues4, needsClarification = (length issues4 > 0)\<rparr>))"

section \<open>Equipment: AFUE lookup, warranty and flags (route.ts)\<close>

record EquipmentAnalysis =
  equipmentType :: string
  manufacturer :: string
  modelNumber :: "string option"
  serialNumber :: string
  nominalTonnage :: "real option"
  inputBTUH :: "real option"
  outputBTUH :: "real option"
  seer :: "real option"
  seer2 :: "real option"
  hspf :: "real option"
  hspf2 :: "real option"
  afue :: "real option"
  refrigerant :: "string option"
  heatStripKW :: "real option"
  manufactureYear :: "real option"
  stages :: "string option"
  ventType :: "string option"
  afueSource :: "string option"

datatype WarrantyStatus = likely_in_parts_warranty | likely_out_of_warranty | unknown

record WarrantyInfo =
  manufactureYear :: "real option"
  approxAgeYears :: "real option"
  likelyWarrantyStatus :: WarrantyStatus

record EquipmentFlags =
  afueVentMismatch :: bool
  notes' :: "string list"

definition AFUE_MODEL_TABLE :: "string \<rightharpoonup> real" where
  "AFUE_MODEL_TABLE = map_of [(''AUD2B080A9V3VBA'', 80), (''GMH950703BX'', 95)]"

text \<open>
  \<^verbatim>\<open>String.prototype.trim\<close> removes white space and line terminators from both ends:
  tab, line feed, vertical tab, form feed, carriage return, space, and (as their UTF-8
  bytes) U+00A0, U+1680, U+2000 to U+200A, U+2028, U+2029, U+202F, U+205F, U+3000 and
  U+FEFF. \<^verbatim>\<open>toUpperCase\<close> is modelled on ASCII, where it changes \<open>a\<close> to \<open>z\<close>: the keys
  of the table are ASCII, and no character outside ASCII has an upper-case form made of
  the letters that occur in them. The table is a plain object, which also answers for the
  property names it inherits; each of those contains a lower-case letter, so no
  upper-cased key reaches one.
\<close>

definition white_space :: "string list" where
  "white_space =
     [[CHR 0x09], [CHR 0x0A], [CHR 0x0B], [CHR 0x0C], [CHR 0x0D], [CHR 0x20],
      [CHR 0xC2, CHR 0xA0], [CHR 0xE1, CHR 0x9A, CHR 0x80],
      [CHR 0xE2, CHR 0x80, CHR 0x80], [CHR 0xE2, CHR 0x80, CHR 0x81],
      [CHR 0xE2, CHR 0x80, CHR 0x82], [CHR 0xE2, CHR 0x80, CHR 0x83],
      [CHR 0xE2, CHR 0x80, CHR 0x84], [CHR 0xE2, CHR 0x80, CHR 0x85],
      [CHR 0xE2, CHR 0x80, CHR 0x86], [CHR 0xE2, CHR 0x80, CHR 0x87],
      [CHR 0xE2, CHR 0x80, CHR 0x88], [CHR 0xE2, CHR 0x80, CHR 0x89],
      [CHR 0xE2, CHR 0x80, CHR 0x8A], [CHR 0xE2, CHR 0x80, CHR 0xA8],
      [CHR 0xE2, CHR 0x80, CHR 0xA9], [CHR 0xE2, CHR 0x80, CHR 0xAF],
      [CHR 0xE2, CHR 0x81, CHR 0x9F], [CHR 0xE3, CHR 0x80, CHR 0x80],
      [CHR 0xEF, CHR 0xBB, CHR 0xBF]]"

text \<open>Remove from the front of \<open>s\<close>, as long as there is one, a member of \<open>ws\<close>.\<close>

function strip_front :: "string list \<Rightarrow> string \<Rightarrow> string" where
  "strip_front ws s =
     (case find (\<lambda>w. w \<noteq> [] \<and> take (length w) s = w) ws of
        None \<Rightarrow> s
      | Some w \<Rightarrow> strip_front ws (drop (length w) s))"
  by pat_completeness auto
termination
proof (relation "measure (\<lambda>(ws, s). length s)")
  show "wf (measure (\<lambda>(ws, s). length s))" by simp
next
  fix ws :: "string list" and s w :: string
  assume "find (\<lambda>w. w \<noteq> [] \<and> take (length w) s = w) ws = Some w"
  then have w: "w \<noteq> []" and t: "take (length w) s = w"
    by (auto simp add: find_Some_iff)
  from t have "length (take (length w) s) = length w"
    by simp
  then have "length w \<le> length s"
    by simp
  with w show "((ws, drop (length w) s), (ws, s)) \<in> measure (\<lambda>(ws, s). length s)"
    by (cases w) auto
qed

declare strip_front.simps [simp del]

definition trim :: "string \<Rightarrow> string" where
  "trim s = rev (strip_front (map rev white_space) (rev (strip_front white_space s)))"

definition upper_char :: "char \<Rightarrow> char" where
  "upper_char c =
     (case map_of (zip ''abcdefghijklmnopqrstuvwxyz'' ''ABCDEFGHIJKLMNOPQRSTUVWXYZ'') c of
        Some u \<Rightarrow> u
      | None \<Rightarrow> c)"

definition toUpperCase :: "string \<Rightarrow> string" where
  "toUpperCase s = map upper_char s"

definition applyAfueFromModelTable :: "EquipmentAnalysis option \<Rightarrow> EquipmentAnalysis option" where
  "applyAfueFromModelTable equipment =
     (case equipment of
        None \<Rightarrow> None
      | Some e \<Rightarrow>
          if afue e \<noteq> None then Some e
          else
            (let rawModel = (case modelNumber e of None \<Rightarrow> [] | Some m \<Rightarrow> m) in
             if rawModel = [] then Some e
             else
               (let key = toUpperCase (trim rawModel) in
                case AFUE_MODEL_TABLE key of
                  Some v \<Rightarrow>
                    Some (e\<lparr>afue := Some v,
                            afueSource :=
                              (if afueSource e \<noteq> None \<and> afueSource e \<noteq> Some [] \<and>
                                  afueSource e \<noteq> Some ''unknown''
                               then afueSource e else Some ''model_lookup'')\<rparr>)
                | None \<Rightarrow> Some e)))"


definition note_mismatch :: string where
  "note_mismatch =
     ''AI/model lookup says 90%+ AFUE, but venting appears to be metal/B-vent only. This often indicates an 80% furnace. Please confirm AFUE manually.''"

definition note_pvc :: string where
  "note_pvc =
     ''Venting appears to be PVC, which often indicates a 90%+ condensing furnace. Confirm AFUE from the rating plate.''"

text \<open>The conditions of the two \<^verbatim>\<open>if\<close>s of \<^verbatim>\<open>analyzeEquipmentFlags\<close>.\<close>

definition mismatch_fires :: "EquipmentAnalysis \<Rightarrow> bool" where
  "mismatch_fires e =
     (let ventType = (case ventType e of None \<Rightarrow> ''unknown'' | Some v \<Rightarrow> v) in
      (case afue e of None \<Rightarrow> False | Some a \<Rightarrow> a \<ge> 90 \<and> ventType = ''metal_flue''))"

definition pvc_fires :: "EquipmentAnalysis \<Rightarrow> bool" where
  "pvc_fires e =
     (let ventType = (case ventType e of None \<Rightarrow> ''unknown'' | Some v \<Rightarrow> v) in
      afue e = None \<and> ventType = ''pvc'')"

definition analyzeEquipmentFlags :: "EquipmentAnalysis option \<Rightarrow> EquipmentFlags option" where
  "analyzeEquipmentFlags equipment =
     (case equipment of
        None \<Rightarrow> None
      | Some e \<Rightarrow>
          (let afueVentMismatch1 = mismatch_fires e;
               notes1 = (if mismatch_fires e then [note_mismatch] else []);
               notes2 = notes1 @ (if pvc_fires e then [note_pvc] else [])
           in if \<not> afueVentMismatch1 \<and> length notes2 = 0
              then Some \<lparr>afueVentMismatch = False, notes' = []\<rparr>
              else Some \<lparr>afueVentMismatch = afueVentMismatch1, notes' = notes2\<rparr>))"

section \<open>Load calculation (lib/loadCalc.ts)\<close>

datatype WindowAmount = few | average | many | unknown

datatype InsulationLevel = poor | average | good

datatype Orientation = north | south | east | west | mixed | unknown

datatype SidingType = vinyl | wood | fiber_cement | stucco | brick | mixed | unknown

record LoadCalcInput =
  sqft :: real
  stories :: real
  windows :: WindowAmount
  orientation :: Orientation
  insulation :: InsulationLevel
  siding :: SidingType
  designDeltaT :: real
  indoorRH :: real
  ductsInAtticOrCrawl :: bool

record LoadCalcResult =
  sensibleBTUH :: int
  latentBTUH :: int
  totalBTUH :: int
  recommendedTonnage :: real
  notes' :: "string list"

datatype error = Error string

subsection \<open>Numbers as text\<close>

text \<open>
  The last note shows an integer through a template literal and the tonnage through
  \<^verbatim>\<open>toFixed(2)\<close>. The first prints the decimal digits of an integer below \<open>2\<^sup>5\<^sup>3\<close> in
  magnitude, the second those of a number below \<open>10\<^sup>2\<^sup>1\<close>; beyond, JavaScript prints the
  shortest digits that identify the double, or an exponent, and that is not modelled.
\<close>

definition digit_char :: "nat \<Rightarrow> char" where
  "digit_char d = ''0123456789'' ! d"

fun show_nat :: "nat \<Rightarrow> string" where
  "show_nat n = (if n < 10 then [digit_char n] else show_nat (n div 10) @ [digit_char (n mod 10)])"

declare show_nat.simps [simp del]

definition show_int :: "int \<Rightarrow> string" where
  "show_int i = (if i < 0 then ''-'' @ show_nat (nat (- i)) else show_nat (nat i))"

definition toFixed2 :: "real \<Rightarrow> string" where
  "toFixed2 x =
     (let s = (if x < 0 then ''-'' else []);
          n = nat \<lfloor>\<bar>x\<bar> * 100 + 1 / 2\<rfloor>
      in s @ show_nat (n div 100) @ ''.'' @ [digit_char (n div 10 mod 10), digit_char (n mod 10)])"

subsection \<open>The factors and their notes\<close>

text \<open>Each factor that is written as a decimal literal in the source is the double nearest to it.\<close>

definition basePerSqFtAt30 :: real where
  "basePerSqFtAt30 = 10"

definition basePerSqFt :: "LoadCalcInput \<Rightarrow> real" where
  "basePerSqFt inp = fmul basePerSqFtAt30 (fdiv (designDeltaT inp) 30)"

definition insulationFactor :: "InsulationLevel \<Rightarrow> real" where
  "insulationFactor i =
     (case i of InsulationLevel.good \<Rightarrow> fl 0.85 | InsulationLevel.average \<Rightarrow> 1
      | InsulationLevel.poor \<Rightarrow> fl 1.2)"

definition insulationNotes :: "InsulationLevel \<Rightarrow> string list" where
  "insulationNotes i =
     (case i of
        InsulationLevel.good \<Rightarrow> [''Good insulation: slightly reduced load.'']
      | InsulationLevel.average \<Rightarrow> []
      | InsulationLevel.poor \<Rightarrow> [''Poor insulation: increased envelope load.''])"

definition windowFactor :: "WindowAmount \<Rightarrow> real" where
  "windowFactor w =
     (case w of WindowAmount.few \<Rightarrow> fl 0.9 | WindowAmount.average \<Rightarrow> 1
      | WindowAmount.many \<Rightarrow> fl 1.15 | WindowAmount.unknown \<Rightarrow> 1)"

definition windowNotes :: "WindowAmount \<Rightarrow> string list" where
  "windowNotes w =
     (case w of
        WindowAmount.few \<Rightarrow> [''Few windows: reduced gain/loss.'']
      | WindowAmount.average \<Rightarrow> []
      | WindowAmount.many \<Rightarrow> [''Many windows: increased gain/loss.'']
      | WindowAmount.unknown \<Rightarrow> [''Window amount unknown: assuming average.''])"

definition orientationFactor :: "Orientation \<Rightarrow> real" where
  "orientationFactor ori =
     (case ori of Orientation.south \<Rightarrow> fl 1.1 | Orientation.west \<Rightarrow> fl 1.1
      | Orientation.north \<Rightarrow> fl 0.95 | Orientation.east \<Rightarrow> fl 1.05
      | Orientation.mixed \<Rightarrow> 1 | Orientation.unknown \<Rightarrow> 1)"

definition orientationNotes :: "Orientation \<Rightarrow> string list" where
  "orientationNotes ori =
     (case ori of
        Orientation.south \<Rightarrow> [''South/West orientation: higher solar gain.'']
      | Orientation.west \<Rightarrow> [''South/West orientation: higher solar gain.'']
      | Orientation.north \<Rightarrow> [''North orientation: slightly lower solar gain.'']
      | Orientation.east \<Rightarrow> []
      | Orientation.mixed \<Rightarrow> []
      | Orientation.unknown \<Rightarrow> [])"

definition note_multi_story :: string where
  "note_multi_story = ''Multi-story: extra load for stack effect and envelope area.''"

definition storiesFactor :: "real \<Rightarrow> real" where
  "storiesFactor st = (if st \<ge> 2 then fl 1.08 else 1)"

definition storiesNotes :: "real \<Rightarrow> string list" where
  "storiesNotes st = (if st \<ge> 2 then [note_multi_story] else [])"

definition sidingFactor :: "SidingType \<Rightarrow> real" where
  "sidingFactor sd =
     (case sd of SidingType.brick \<Rightarrow> fl 0.97 | SidingType.stucco \<Rightarrow> fl 0.99
      | SidingType.fiber_cement \<Rightarrow> 1 | SidingType.wood \<Rightarrow> 1 | SidingType.vinyl \<Rightarrow> 1
      | SidingType.mixed \<Rightarrow> 1 | SidingType.unknown \<Rightarrow> 1)"

definition ductFactor :: "bool \<Rightarrow> real" where
  "ductFactor d = (if d then fl 1.1 else 1)"

definition ductNotes :: "bool \<Rightarrow> string list" where
  "ductNotes d = (if d then [''Ducts in unconditioned space: 10% penalty added.''] else [])"

subsection \<open>The loads before \<^verbatim>\<open>Math.round\<close> (the local constants of the source)\<close>

text \<open>
  The product is taken from left to right, as the source writes it, and rounded after
  every multiplication.
\<close>

definition sensiblePerSqFt :: "LoadCalcInput \<Rightarrow> real" where
  "sensiblePerSqFt inp =
     fmul (fmul (fmul (fmul (fmul (fmul
       (basePerSqFt inp)
       (insulationFactor (insulation inp)))
       (windowFactor (LoadCalcInput.windows inp)))
       (orientationFactor (orientation inp)))
       (storiesFactor (LoadCalcInput.stories inp)))
       (sidingFactor (LoadCalcInput.siding inp)))
       (ductFactor (ductsInAtticOrCrawl inp))"

definition sensible_unrounded :: "LoadCalcInput \<Rightarrow> real" where
  "sensible_unrounded inp = fmul (sensiblePerSqFt inp) (sqft inp)"

definition latentRatio :: "real \<Rightarrow> real" where
  "latentRatio rh = (if rh \<le> 35 then fl 0.15 else if rh \<ge> 55 then fl 0.25 else fl 0.2)"

definition latent_unrounded :: "LoadCalcInput \<Rightarrow> real" where
  "latent_unrounded inp = fmul (sensible_unrounded inp) (latentRatio (indoorRH inp))"

definition total_unrounded :: "LoadCalcInput \<Rightarrow> real" where
  "total_unrounded inp = fadd (sensible_unrounded inp) (latent_unrounded inp)"

definition rawTonnage :: "LoadCalcInput \<Rightarrow> real" where
  "rawTonnage inp = fdiv (total_unrounded inp) 12000"

definition recommendedTonnage_of :: "LoadCalcInput \<Rightarrow> real" where
  "recommendedTonnage_of inp = fdiv (of_int (Math_round (fmul (rawTonnage inp) 4))) 4"

definition summaryNote :: "LoadCalcInput \<Rightarrow> string" where
  "summaryNote inp =
     ''Based on the inputs, total design load is ~'' @
     show_int (Math_round (total_unrounded inp)) @
     '' BTU/h, which is roughly '' @ toFixed2 (recommendedTonnage_of inp) @ '' tons.''"

definition factorNotes :: "LoadCalcInput \<Rightarrow> string list" where
  "factorNotes inp =
     insulationNotes (insulation inp) @
     windowNotes (LoadCalcInput.windows inp) @
     orientationNotes (orientation inp) @
     storiesNotes (LoadCalcInput.stories inp) @
     ductNotes (ductsInAtticOrCrawl inp)"

definition runLoadCalc :: "LoadCalcInput \<Rightarrow> error + LoadCalcResult" where
  "runLoadCalc inp =
     (if sqft inp \<le> 0 then Inl (Error ''sqft must be > 0'')
      else Inr
        \<lparr>sensibleBTUH = Math_round (sensible_unrounded inp),
         latentBTUH = Math_round (latent_unrounded inp),
         totalBTUH = Math_round (total_unrounded inp),
         recommendedTonnage = recommendedTonnage_of inp,
         notes' = factorNotes inp @ [summaryNote inp]\<rparr>)"

section \<open>Concrete inputs\<close>

text \<open>
  A 1504 square-foot single-story house as the load-calc panel submits it (design
  temperature difference 40, indoor humidity 45), with the ducts in the attic.
\<close>

definition c1_input :: LoadCalcInput where
  "c1_input =
     \<lparr>sqft = 1504, stories = 1, windows = WindowAmount.average, orientation = Orientation.mixed,
      insulation = InsulationLevel.average, siding = SidingType.vinyl, designDeltaT = 40,
      indoorRH = 45, ductsInAtticOrCrawl = True\<rparr>"

definition c1_result :: LoadCalcResult where
  "c1_result =
     \<lparr>sensibleBTUH = 22059, latentBTUH = 4412, totalBTUH = 26470, recommendedTonnage = 9 / 4,
      notes' = [''Ducts in unconditioned space: 10% penalty added.'',
        ''Based on the inputs, total design load is ~26470 BTU/h, which is roughly 2.25 tons.'']\<rparr>"

text \<open>The 2200 square-foot two-story house of the specification's worked example.\<close>

definition c2_input :: LoadCalcInput where
  "c2_input =
     \<lparr>sqft = 2200, stories = 2, windows = WindowAmount.many, orientation = Orientation.south,
      insulation = InsulationLevel.average, siding = SidingType.vinyl, designDeltaT = 40,
      indoorRH = 45, ductsInAtticOrCrawl = True\<rparr>"

definition c2_result :: LoadCalcResult where
  "c2_result =
     \<lparr>sensibleBTUH = 44083, latentBTUH = 8817, totalBTUH = 52899, recommendedTonnage = 9 / 2,
      notes' = [''Many windows: increased gain/loss.'',
        ''South/West orientation: higher solar gain.'',
        ''Multi-story: extra load for stack effect and envelope area.'',
        ''Ducts in unconditioned space: 10% penalty added.'',
        ''Based on the inputs, total design load is ~52899 BTU/h, which is roughly 4.50 tons.'']\<rparr>"

text \<open>The 2200 square-foot one-story house behind the example object of the README.\<close>

definition readme_input :: LoadCalcInput where
  "readme_input = c1_input\<lparr>sqft := 2200\<rparr>"

definition readme_result :: LoadCalcResult where
  "readme_result =
     \<lparr>sensibleBTUH = 32267, latentBTUH = 6453, totalBTUH = 38720, recommendedTonnage = 3.25,
      notes' = [''Ducts in unconditioned space: 10% penalty added.'',
        ''Based on the inputs, total design load is ~38720 BTU/h, which is roughly 3.25 tons.'']\<rparr>"

text \<open>
  Three houses as the load-calc panel submits them (one story, siding unknown, ducts
  inside), at which the rounding of the doubles decides the result: in exact arithmetic
  the first would have a sensible load of 9579.5, the second a total of 15053.5, and the
  third a tonnage of 8.5 quarter-tons before rounding.
\<close>

definition panel_805_input :: LoadCalcInput where
  "panel_805_input =
     \<lparr>sqft = 805, stories = 1, windows = WindowAmount.average, orientation = Orientation.east,
      insulation = InsulationLevel.good, siding = SidingType.unknown, designDeltaT = 40,
      indoorRH = 45, ductsInAtticOrCrawl = False\<rparr>"

definition panel_875_input :: LoadCalcInput where
  "panel_875_input =
     \<lparr>sqft = 875, stories = 1, windows = WindowAmount.many, orientation = Orientation.south,
      insulation = InsulationLevel.good, siding = SidingType.unknown, designDeltaT = 40,
      indoorRH = 45, ductsInAtticOrCrawl = False\<rparr>"

definition panel_1875_input :: LoadCalcInput where
  "panel_1875_input =
     \<lparr>sqft = 1875, stories = 1, windows = WindowAmount.average, orientation = Orientation.mixed,
      insulation = InsulationLevel.good, siding = SidingType.unknown, designDeltaT = 40,
      indoorRH = 45, ductsInAtticOrCrawl = False\<rparr>"

text \<open>The same house with no area, and with a negative one.\<close>

definition c3_zero :: LoadCalcInput where
  "c3_zero = c2_input\<lparr>sqft := 0\<rparr>"

definition c3_negative :: LoadCalcInput where
  "c3_negative = c2_input\<lparr>sqft := - 1200\<rparr>"

text \<open>A story and a half.\<close>

definition c9_input :: LoadCalcInput where
  "c9_input = c1_input\<lparr>stories := 1.5\<rparr>"

text \<open>The furnace of the example reply in the equipment prompt.\<close>

definition trane :: EquipmentAnalysis where
  "trane =
     \<lparr>equipmentType = ''furnace'', manufacturer = ''Trane'',
      modelNumber = Some ''AUD2B080A9V3VBA'', serialNumber = ''123745N3G1G'',
      nominalTonnage = None, inputBTUH = Some 80000, outputBTUH = None, seer = None,
      seer2 = None, hspf = None, hspf2 = None, afue = Some 80, refrigerant = None,
      heatStripKW = None, EquipmentAnalysis.manufactureYear = Some 2012, stages = Some ''two-stage'',
      ventType = Some ''metal_flue'', afueSource = Some ''label''\<rparr>"

text \<open>A furnace whose AFUE was not read and whose model number is in the table.\<close>

definition goodman_unread :: EquipmentAnalysis where
  "goodman_unread =
     trane\<lparr>manufacturer := ''Goodman'', modelNumber := Some '' gmh950703bx '', afue := None,
       ventType := Some ''unknown'', afueSource := Some ''unknown''\<rparr>"

text \<open>The house of the example reply in the exterior prompt, and one with unclear windows.\<close>

definition house_example :: ExteriorAnalysis where
  "house_example =
     \<lparr>ExteriorAnalysis.stories = Some (StoriesNumber 2), ExteriorAnalysis.siding = ''vinyl'',
      ExteriorAnalysis.windows = ''average'', gutters = ''yes'', condition = ''average'',
      confidence = Some 0.8\<rparr>"

definition house_unclear :: ExteriorAnalysis where
  "house_unclear = house_example\<lparr>ExteriorAnalysis.windows := ''unclear''\<rparr>"

section \<open>Evaluation lemmas\<close>

lemma show_nat_small: "n < 10 \<Longrightarrow> show_nat n = [digit_char n]"
  by (simp add: show_nat.simps)

lemma show_nat_big: "\<not> n < 10 \<Longrightarrow> show_nat n = show_nat (n div 10) @ [digit_char (n mod 10)]"
  by (subst show_nat.simps) simp

lemmas render_simps = show_int_def toFixed2_def show_nat_small show_nat_big digit_char_def

lemma ilog2_small: "n < 2 \<Longrightarrow> ilog2 n = 0"
  by (simp add: ilog2.simps)

lemma ilog2_big: "\<not> n < 2 \<Longrightarrow> ilog2 n = Suc (ilog2 (n div 2))"
  by (subst ilog2.simps) simp

lemmas fl_eval = fl_def fmul_def fdiv_def fadd_def exponent_def rne_def Let_def
  ilog2_small ilog2_big

lemmas factor_defs = sensiblePerSqFt_def basePerSqFt_def basePerSqFtAt30_def
  insulationFactor_def windowFactor_def orientationFactor_def storiesFactor_def sidingFactor_def
  ductFactor_def

lemmas note_defs = factorNotes_def insulationNotes_def windowNotes_def orientationNotes_def
  storiesNotes_def ductNotes_def note_multi_story_def

subsection \<open>The error of one rounding\<close>

lemma rne_error: "\<bar>of_int (rne y) - y\<bar> \<le> 1 / 2"
  unfolding rne_def Let_def by (auto; linarith)

lemma ilog2_less: "n < 2 ^ k \<Longrightarrow> 0 < k \<Longrightarrow> ilog2 n < k"
proof (induction k arbitrary: n)
  case 0
  then show ?case by simp
next
  case (Suc k)
  show ?case
  proof (cases "n < 2")
    case True
    then show ?thesis by (simp add: ilog2_small)
  next
    case False
    from Suc.prems(1) have half: "n div 2 < 2 ^ k" by simp
    from False half have "0 < k" by (cases k) auto
    with Suc.IH [OF half] False show ?thesis by (simp add: ilog2_big)
  qed
qed

lemma exponent_le_52: "\<bar>x\<bar> < 2 ^ 53 \<Longrightarrow> exponent x \<le> 52"
proof (cases "1 \<le> \<bar>x\<bar>")
  case True
  assume "\<bar>x\<bar> < 2 ^ 53"
  then have "\<lfloor>\<bar>x\<bar>\<rfloor> < 2 ^ 53" by (simp add: floor_less_iff)
  then have "nat \<lfloor>\<bar>x\<bar>\<rfloor> < 2 ^ 53" by (simp add: nat_less_iff)
  then have "ilog2 (nat \<lfloor>\<bar>x\<bar>\<rfloor>) < 53" by (rule ilog2_less) simp
  with True show ?thesis by (simp add: exponent_def)
next
  case False
  then show ?thesis by (simp add: exponent_def)
qed

text \<open>Below \<open>2\<^sup>5\<^sup>3\<close> the doubles are at most one apart, so rounding moves a number by at most a half.\<close>

lemma fl_error:
  assumes "\<bar>x\<bar> < 2 ^ 53"
  shows "\<bar>fl x - x\<bar> \<le> 1 / 2"
proof (cases "x = 0")
  case True
  then show ?thesis by (simp add: fl_def)
next
  case False
  define s where "s = max (exponent x) (- 1022) - 52"
  from exponent_le_52 [OF assms] have s_le: "s \<le> 0" by (simp add: s_def)
  show ?thesis
  proof (cases "0 \<le> s")
    case True
    with s_le have "s = 0" by simp
    with False have "fl x = of_int (rne x)" by (simp add: fl_def s_def Let_def)
    then show ?thesis using rne_error [of x] by simp
  next
    case neg: False
    define k where "k = nat (- s)"
    have flx: "fl x = of_int (rne (x * 2 ^ k)) / 2 ^ k"
      using False neg by (simp add: fl_def s_def [symmetric] k_def Let_def)
    have pos: "(1::real) \<le> 2 ^ k" by simp
    have "fl x - x = (of_int (rne (x * 2 ^ k)) - x * 2 ^ k) / 2 ^ k"
      by (simp add: flx field_simps)
    then have "\<bar>fl x - x\<bar> = \<bar>of_int (rne (x * 2 ^ k)) - x * 2 ^ k\<bar> / 2 ^ k"
      by (simp add: abs_divide)
    also have "\<dots> \<le> (1 / 2) / 2 ^ k"
      by (rule divide_right_mono [OF rne_error]) simp
    also have "\<dots> \<le> 1 / 2"
      using pos by (simp add: field_simps)
    finally show ?thesis .
  qed
qed

text \<open>
  Rounding the double sum of two numbers and summing their two roundings differ by at
  most one, as long as the sum stays below \<open>2\<^sup>5\<^sup>3\<close>.
\<close>

lemma Math_round_fadd_bounds:
  assumes "\<bar>a + b\<bar> < 2 ^ 53"
  shows "\<bar>Math_round (fadd a b) - (Math_round a + Math_round b)\<bar> \<le> 1"
  using fl_error [OF assms] unfolding Math_round_def fadd_def by linarith

text \<open>The doubles of the literals.\<close>

lemma literal_108: "fl 1.08 = 607985949695017 / 562949953421312"
  by (simp add: fl_eval)

subsection \<open>The 1504 square-foot house, step by step\<close>

lemma c1_rate: "sensiblePerSqFt c1_input = 8256599316845909 / 562949953421312"
  by (simp add: c1_input_def factor_defs fl_eval)

lemma c1_sensible: "sensible_unrounded c1_input = 3031720061654357 / 137438953472"
  by (simp add: sensible_unrounded_def c1_rate) (simp add: c1_input_def fl_eval)

lemma c1_latent: "latent_unrounded c1_input = 4850752098646971 / 1099511627776"
  by (simp add: latent_unrounded_def c1_sensible latentRatio_def)
     (simp add: c1_input_def fl_eval)

lemma c1_total: "total_unrounded c1_input = 7276128147970457 / 274877906944"
  by (simp add: total_unrounded_def c1_sensible c1_latent) (simp add: fl_eval)

lemma c1_tonnage: "recommendedTonnage_of c1_input = 9 / 4"
  by (simp add: recommendedTonnage_of_def rawTonnage_def c1_total) (simp add: Math_round_def fl_eval)

lemma c1_summary: "summaryNote c1_input =
   ''Based on the inputs, total design load is ~26470 BTU/h, which is roughly 2.25 tons.''"
  by (simp add: summaryNote_def c1_total c1_tonnage Math_round_def render_simps)

lemma c1_notes: "factorNotes c1_input =
   [''Ducts in unconditioned space: 10% penalty added.'']"
  by (simp add: note_defs c1_input_def)

lemma c1_run: "runLoadCalc c1_input = Inr c1_result"
  by (simp add: runLoadCalc_def c1_result_def c1_sensible c1_latent c1_total c1_tonnage
        c1_summary c1_notes Math_round_def)
     (simp add: c1_input_def)

subsection \<open>The 2200 square-foot house, step by step\<close>

lemma c2_rate: "sensiblePerSqFt c2_input = 176252593541795 / 8796093022208"
  by (simp add: c2_input_def factor_defs fl_eval)

lemma c2_sensible: "sensible_unrounded c2_input = 6058682902999203 / 137438953472"
  by (simp add: sensible_unrounded_def c2_rate) (simp add: c2_input_def fl_eval)

lemma c2_latent: "latent_unrounded c2_input = 4846946322399363 / 549755813888"
  by (simp add: latent_unrounded_def c2_sensible latentRatio_def)
     (simp add: c2_input_def fl_eval)

lemma c2_total: "total_unrounded c2_input = 1817604870899761 / 34359738368"
  by (simp add: total_unrounded_def c2_sensible c2_latent) (simp add: fl_eval)

lemma c2_tonnage: "recommendedTonnage_of c2_input = 9 / 2"
  by (simp add: recommendedTonnage_of_def rawTonnage_def c2_total) (simp add: Math_round_def fl_eval)

lemma c2_summary: "summaryNote c2_input =
   ''Based on the inputs, total design load is ~52899 BTU/h, which is roughly 4.50 tons.''"
  by (simp add: summaryNote_def c2_total c2_tonnage Math_round_def render_simps)

lemma c2_notes: "factorNotes c2_input =
   [''Many windows: increased gain/loss.'',
    ''South/West orientation: higher solar gain.'',
    ''Multi-story: extra load for stack effect and envelope area.'',
    ''Ducts in unconditioned space: 10% penalty added.'']"
  by (simp add: note_defs c2_input_def)

lemma c2_run: "runLoadCalc c2_input = Inr c2_result"
  by (simp add: runLoadCalc_def c2_result_def c2_sensible c2_latent c2_total c2_tonnage
        c2_summary c2_notes Math_round_def)
     (simp add: c2_input_def)

subsection \<open>The example of the README\<close>

text \<open>The model reproduces the \<open>loadCalc\<close> object printed in the README, digit for digit.\<close>

lemma readme_rate: "sensiblePerSqFt readme_input = 8256599316845909 / 562949953421312"
  by (simp add: readme_input_def c1_input_def factor_defs fl_eval)

lemma readme_sensible: "sensible_unrounded readme_input = 4434696898696533 / 137438953472"
  by (simp add: sensible_unrounded_def readme_rate) (simp add: readme_input_def c1_input_def fl_eval)

lemma readme_latent: "latent_unrounded readme_input = 7095515037914453 / 1099511627776"
  by (simp add: latent_unrounded_def readme_sensible latentRatio_def)
     (simp add: readme_input_def c1_input_def fl_eval)

lemma readme_total: "total_unrounded readme_input = 38720"
  by (simp add: total_unrounded_def readme_sensible readme_latent) (simp add: fl_eval)

lemma readme_tonnage: "recommendedTonnage_of readme_input = 13 / 4"
  by (simp add: recommendedTonnage_of_def rawTonnage_def readme_total) (simp add: Math_round_def fl_eval)

lemma readme_summary: "summaryNote readme_input =
   ''Based on the inputs, total design load is ~38720 BTU/h, which is roughly 3.25 tons.''"
  by (simp add: summaryNote_def readme_total readme_tonnage Math_round_def render_simps)

lemma readme_notes: "factorNotes readme_input =
   [''Ducts in unconditioned space: 10% penalty added.'']"
  by (simp add: note_defs readme_input_def c1_input_def)

lemma readme_run: "runLoadCalc readme_input = Inr readme_result"
  by (simp add: runLoadCalc_def readme_result_def readme_sensible readme_latent readme_total readme_tonnage
        readme_summary readme_notes Math_round_def)
     (simp add: readme_input_def c1_input_def)

subsection \<open>The three panel houses\<close>

text \<open>
  Here the doubles decide: the code's 9579, 15053 and 2 tons against the 9580, 15054 and
  2.25 tons of exact arithmetic.
\<close>

lemma panel_805_rate: "sensiblePerSqFt panel_805_input = 1674776111428403 / 140737488355328"
  by (simp add: panel_805_input_def factor_defs fl_eval)

lemma panel_805_sensible: "sensible_unrounded panel_805_input = 5266385819140095 / 549755813888"
  by (simp add: sensible_unrounded_def panel_805_rate) (simp add: panel_805_input_def fl_eval)

lemma panel_805_latent: "latent_unrounded panel_805_input = 1053277163828019 / 549755813888"
  by (simp add: latent_unrounded_def panel_805_sensible latentRatio_def)
     (simp add: panel_805_input_def fl_eval)

lemma panel_805_total: "total_unrounded panel_805_input = 3159831491484057 / 274877906944"
  by (simp add: total_unrounded_def panel_805_sensible panel_805_latent) (simp add: fl_eval)

lemma panel_805_tonnage: "recommendedTonnage_of panel_805_input = 1"
  by (simp add: recommendedTonnage_of_def rawTonnage_def panel_805_total) (simp add: Math_round_def fl_eval)

lemma panel_805_summary: "summaryNote panel_805_input =
   ''Based on the inputs, total design load is ~11495 BTU/h, which is roughly 1.00 tons.''"
  by (simp add: summaryNote_def panel_805_total panel_805_tonnage Math_round_def render_simps)

lemma panel_805_notes: "factorNotes panel_805_input =
   [''Good insulation: slightly reduced load.'']"
  by (simp add: note_defs panel_805_input_def)

lemma panel_805_run: "runLoadCalc panel_805_input = Inr
   \<lparr>sensibleBTUH = 9579, latentBTUH = 1916, totalBTUH = 11495, recommendedTonnage = 1,
    notes' = [''Good insulation: slightly reduced load.'',
    ''Based on the inputs, total design load is ~11495 BTU/h, which is roughly 1.00 tons.'']\<rparr>"
  by (simp add: runLoadCalc_def panel_805_sensible panel_805_latent panel_805_total panel_805_tonnage
        panel_805_summary panel_805_notes Math_round_def)
     (simp add: panel_805_input_def)

lemma panel_875_rate: "sensiblePerSqFt panel_875_input = 2017706458054219 / 140737488355328"
  by (simp add: panel_875_input_def factor_defs fl_eval)

lemma panel_875_sensible: "sensible_unrounded panel_875_input = 3448228810151253 / 274877906944"
  by (simp add: sensible_unrounded_def panel_875_rate) (simp add: panel_875_input_def fl_eval)

lemma panel_875_latent: "latent_unrounded panel_875_input = 5517166096242005 / 2199023255552"
  by (simp add: latent_unrounded_def panel_875_sensible latentRatio_def)
     (simp add: panel_875_input_def fl_eval)

lemma panel_875_total: "total_unrounded panel_875_input = 8275749144363007 / 549755813888"
  by (simp add: total_unrounded_def panel_875_sensible panel_875_latent) (simp add: fl_eval)

lemma panel_875_tonnage: "recommendedTonnage_of panel_875_input = 5 / 4"
  by (simp add: recommendedTonnage_of_def rawTonnage_def panel_875_total) (simp add: Math_round_def fl_eval)

lemma panel_875_summary: "summaryNote panel_875_input =
   ''Based on the inputs, total design load is ~15053 BTU/h, which is roughly 1.25 tons.''"
  by (simp add: summaryNote_def panel_875_total panel_875_tonnage Math_round_def render_simps)

lemma panel_875_notes: "factorNotes panel_875_input =
   [''Good insulation: slightly reduced load.'',
    ''Many windows: increased gain/loss.'',
    ''South/West orientation: higher solar gain.'']"
  by (simp add: note_defs panel_875_input_def)

lemma panel_875_run: "runLoadCalc panel_875_input = Inr
   \<lparr>sensibleBTUH = 12545, latentBTUH = 2509, totalBTUH = 15053, recommendedTonnage = 5 / 4,
    notes' = [''Good insulation: slightly reduced load.'',
    ''Many windows: increased gain/loss.'',
    ''South/West orientation: higher solar gain.'',
    ''Based on the inputs, total design load is ~15053 BTU/h, which is roughly 1.25 tons.'']\<rparr>"
  by (simp add: runLoadCalc_def panel_875_sensible panel_875_latent panel_875_total panel_875_tonnage
        panel_875_summary panel_875_notes Math_round_def)
     (simp add: panel_875_input_def)

lemma panel_1875_rate: "sensiblePerSqFt panel_1875_input = 3190049736054101 / 281474976710656"
  by (simp add: panel_1875_input_def factor_defs fl_eval)

lemma panel_1875_sensible: "sensible_unrounded panel_1875_input = 5841155522559999 / 274877906944"
  by (simp add: sensible_unrounded_def panel_1875_rate) (simp add: panel_1875_input_def fl_eval)

lemma panel_1875_latent: "latent_unrounded panel_1875_input = 4672924418047999 / 1099511627776"
  by (simp add: latent_unrounded_def panel_1875_sensible latentRatio_def)
     (simp add: panel_1875_input_def fl_eval)

lemma panel_1875_total: "total_unrounded panel_1875_input = 7009386627071999 / 274877906944"
  by (simp add: total_unrounded_def panel_1875_sensible panel_1875_latent) (simp add: fl_eval)

lemma panel_1875_tonnage: "recommendedTonnage_of panel_1875_input = 2"
  by (simp add: recommendedTonnage_of_def rawTonnage_def panel_1875_total) (simp add: Math_round_def fl_eval)

lemma panel_1875_summary: "summaryNote panel_1875_input =
   ''Based on the inputs, total design load is ~25500 BTU/h, which is roughly 2.00 tons.''"
  by (simp add: summaryNote_def panel_1875_total panel_1875_tonnage Math_round_def render_simps)

lemma panel_1875_notes: "factorNotes panel_1875_input =
   [''Good insulation: slightly reduced load.'']"
  by (simp add: note_defs panel_1875_input_def)

lemma panel_1875_run: "runLoadCalc panel_1875_input = Inr
   \<lparr>sensibleBTUH = 21250, latentBTUH = 4250, totalBTUH = 25500, recommendedTonnage = 2,
    notes' = [''Good insulation: slightly reduced load.'',
    ''Based on the inputs, total design load is ~25500 BTU/h, which is roughly 2.00 tons.'']\<rparr>"
  by (simp add: runLoadCalc_def panel_1875_sensible panel_1875_latent panel_1875_total panel_1875_tonnage
        panel_1875_summary panel_1875_notes Math_round_def)
     (simp add: panel_1875_input_def)

subsection \<open>Notes and the table\<close>

lemma multi_story_in_factor_notes:
  "note_multi_story \<in> set (factorNotes inp) \<longleftrightarrow> 2 \<le> LoadCalcInput.stories inp"
  by (cases "insulation inp"; cases "LoadCalcInput.windows inp"; cases "orientation inp")
     (simp_all add: note_defs)

lemma multi_story_not_summary: "note_multi_story \<noteq> summaryNote inp"
  by (simp add: note_multi_story_def summaryNote_def)

lemma notes_differ: "note_mismatch \<noteq> note_pvc"
  by (simp add: note_mismatch_def note_pvc_def)

lemmas trim_eval = trim_def white_space_def strip_front.simps

lemma goodman_key: "AFUE_MODEL_TABLE (toUpperCase (trim '' gmh950703bx '')) = Some 95"
  by (simp add: toUpperCase_def trim_eval upper_char_def AFUE_MODEL_TABLE_def)

text \<open>A no-break space and an ideographic space around the model number are trimmed too.\<close>

lemma trim_unicode:
  "trim ([CHR 0xC2, CHR 0xA0] @ ''gmh950703bx'' @ [CHR 0xE3, CHR 0x80, CHR 0x80, CHR 0x0A]) =
     ''gmh950703bx''"
  by (simp add: trim_eval)

lemma goodman_backfill:
  "applyAfueFromModelTable (Some goodman_unread) =
     Some (goodman_unread\<lparr>afue := Some 95, afueSource := Some ''model_lookup''\<rparr>)"
  by (simp add: applyAfueFromModelTable_def goodman_unread_def goodman_key)

section \<open>The load calculation\<close>

text \<open>
  C1, as stated, fails. For the 1504 square-foot house the loads before rounding are
  22058.67 and 4411.73, which round to 22059 and 4412, while their sum 26470.4 rounds to
  26470: the total returned is not the sum of the two rounded loads.
\<close>

theorem total_not_sum_counterexample:
  "0 < sqft c1_input \<and> runLoadCalc c1_input = Inr c1_result \<and>
   totalBTUH c1_result \<noteq> sensibleBTUH c1_result + latentBTUH c1_result"
  by (simp add: c1_run) (simp add: c1_input_def c1_result_def)

text \<open>
  C1, amended. For every input with positive area whose two loads before rounding sum to
  less than \<open>2\<^sup>5\<^sup>3\<close> in magnitude: the sensible load before rounding is the double product
  of the rate and the area, the latent load before rounding is the double product of
  that unrounded sensible load and the latent ratio, and the three loads returned are
  three separate roundings, of the sensible load, of the latent load, and of their double
  sum. The total therefore differs from the sum of the two rounded loads by at most one.
\<close>

theorem total_rounds_unrounded_sum:
  assumes "0 < sqft inp"
    and "\<bar>sensible_unrounded inp + latent_unrounded inp\<bar> < 2 ^ 53"
  shows "\<exists>r. runLoadCalc inp = Inr r \<and>
     sensible_unrounded inp = fmul (sensiblePerSqFt inp) (sqft inp) \<and>
     latent_unrounded inp = fmul (sensible_unrounded inp) (latentRatio (indoorRH inp)) \<and>
     sensibleBTUH r = Math_round (sensible_unrounded inp) \<and>
     latentBTUH r = Math_round (latent_unrounded inp) \<and>
     totalBTUH r = Math_round (fadd (sensible_unrounded inp) (latent_unrounded inp)) \<and>
     \<bar>totalBTUH r - (sensibleBTUH r + latentBTUH r)\<bar> \<le> 1"
  using assms(1) Math_round_fadd_bounds [OF assms(2)]
  by (simp add: runLoadCalc_def total_unrounded_def sensible_unrounded_def latent_unrounded_def)

theorem total_rounds_unrounded_sum_witness:
  "0 < sqft panel_875_input \<and>
   \<bar>sensible_unrounded panel_875_input + latent_unrounded panel_875_input\<bar> < 2 ^ 53 \<and>
   (\<exists>r. runLoadCalc panel_875_input = Inr r \<and>
     sensibleBTUH r = 12545 \<and> latentBTUH r = 2509 \<and> totalBTUH r = 15053 \<and>
     \<bar>totalBTUH r - (sensibleBTUH r + latentBTUH r)\<bar> \<le> 1)"
proof -
  have pos: "0 < sqft panel_875_input"
    by (simp add: panel_875_input_def)
  have small: "\<bar>sensible_unrounded panel_875_input + latent_unrounded panel_875_input\<bar> < 2 ^ 53"
    by (simp add: panel_875_sensible panel_875_latent)
  have sum: "fadd (sensible_unrounded panel_875_input) (latent_unrounded panel_875_input) =
      8275749144363007 / 549755813888"
    using panel_875_total by (simp only: total_unrounded_def)
  have s: "Math_round (sensible_unrounded panel_875_input) = 12545"
    by (simp add: panel_875_sensible Math_round_def)
  have l: "Math_round (latent_unrounded panel_875_input) = 2509"
    by (simp add: panel_875_latent Math_round_def)
  have t: "Math_round (fadd (sensible_unrounded panel_875_input)
      (latent_unrounded panel_875_input)) = 15053"
    by (simp add: sum Math_round_def)
  from total_rounds_unrounded_sum [OF pos small] s l t pos small show ?thesis
    by auto
qed

text \<open>
  C2, as stated, fails. For the worked example the chain of the listed factors,
  13.33 \<times> 1.15 \<times> 1.10 \<times> 1.08 \<times> 1.10, gives 20.0376 per square foot (to within
  \<open>10\<^sup>-\<^sup>1\<^sup>2\<close>) and the sensible load returned is 44083: more than 1 away from 18.71 and
  more than 2900 away from 41150.
\<close>

theorem spec_example_counterexample:
  "runLoadCalc c2_input = Inr c2_result \<and>
   \<bar>sensiblePerSqFt c2_input - 20.0376\<bar> < 1 / 10 ^ 12 \<and>
   1 < \<bar>sensiblePerSqFt c2_input - 18.71\<bar> \<and>
   sensibleBTUH c2_result = 44083 \<and> 2900 < \<bar>sensibleBTUH c2_result - 41150\<bar>"
  by (simp add: c2_run c2_rate) (simp add: c2_result_def)

text \<open>
  C2, amended. For the worked example (2200 square feet, two stories, many windows, south,
  average insulation, vinyl, design difference 40, humidity 45, ducts in the attic) the
  estimator returns a sensible load of 44083, a latent load of 8817, a total of 52899
  and 4.5 tons, with the four factor notes and the summary note. The rate per square foot
  is the chain of factors of the source taken in doubles, the double printed as
  20.037599999999998, which is 20.0376 to within \<open>10\<^sup>-\<^sup>1\<^sup>2\<close>; the sensible load before
  rounding is 44082.72 to within \<open>10\<^sup>-\<^sup>9\<close>.
\<close>

theorem spec_example_values:
  "runLoadCalc c2_input =
     Inr \<lparr>sensibleBTUH = 44083, latentBTUH = 8817, totalBTUH = 52899, recommendedTonnage = 4.5,
      notes' = [''Many windows: increased gain/loss.'',
        ''South/West orientation: higher solar gain.'',
        ''Multi-story: extra load for stack effect and envelope area.'',
        ''Ducts in unconditioned space: 10% penalty added.'',
        ''Based on the inputs, total design load is ~52899 BTU/h, which is roughly 4.50 tons.'']\<rparr> \<and>
   sensiblePerSqFt c2_input =
     fmul (fmul (fmul (fmul (fmul (fmul (fmul 10 (fdiv 40 30)) 1) (fl 1.15)) (fl 1.1)) (fl 1.08)) 1)
       (fl 1.1) \<and>
   sensiblePerSqFt c2_input = 176252593541795 / 8796093022208 \<and>
   \<bar>sensiblePerSqFt c2_input - 20.0376\<bar> < 1 / 10 ^ 12 \<and>
   sensible_unrounded c2_input = 6058682902999203 / 137438953472 \<and>
   \<bar>sensible_unrounded c2_input - 44082.72\<bar> < 1 / 10 ^ 9"
proof -
  have chain: "sensiblePerSqFt c2_input =
      fmul (fmul (fmul (fmul (fmul (fmul (fmul 10 (fdiv 40 30)) 1) (fl 1.15)) (fl 1.1)) (fl 1.08)) 1)
        (fl 1.1)"
    by (simp add: c2_input_def factor_defs)
  show ?thesis
    using c2_run chain by (simp add: c2_result_def c2_rate c2_sensible)
qed

text \<open>
  C3. An area that is zero or negative makes the estimator throw its input error, so no
  result is returned; every positive area gives a result. No other field is checked.
\<close>

theorem area_only_precondition:
  "(sqft inp \<le> 0 \<longrightarrow> runLoadCalc inp = Inl (Error ''sqft must be > 0'')) \<and>
   (0 < sqft inp \<longrightarrow> (\<exists>r. runLoadCalc inp = Inr r))"
  by (simp add: runLoadCalc_def)

theorem area_only_precondition_witness:
  "sqft c3_zero \<le> 0 \<and> runLoadCalc c3_zero = Inl (Error ''sqft must be > 0'') \<and>
   sqft c3_negative \<le> 0 \<and> runLoadCalc c3_negative = Inl (Error ''sqft must be > 0'') \<and>
   0 < sqft c2_input \<and> (\<exists>r. runLoadCalc c2_input = Inr r)"
  using area_only_precondition [of c3_zero] area_only_precondition [of c3_negative]
    area_only_precondition [of c2_input]
  by (simp add: c3_zero_def c3_negative_def c2_input_def)

text \<open>
  C9. The estimator looks at the number of stories only to ask whether it is at least 2.
  Below 2, so in particular strictly between 1 and 2, the stories factor is 1, no
  stack-effect note is added, and the whole outcome is that of the same house with one
  story. From 2 on the factor is the double 1.08, the outcome is that of the same house
  with two stories, and 1.08 stands in the chain of factors, after the orientation factor
  and before the siding factor: the rate per square foot is the rounded product written
  out below. For a positive area a result exists, its sensible load is the rounding of
  that rate times the area (as long as the product stays in the range of the doubles),
  and the stack-effect note is among its notes exactly when there are at least 2 stories.
\<close>

theorem stories_factor_threshold:
  "(1 < LoadCalcInput.stories inp \<and> LoadCalcInput.stories inp < 2 \<longrightarrow>
      storiesFactor (LoadCalcInput.stories inp) = 1 \<and>
      storiesNotes (LoadCalcInput.stories inp) = [] \<and>
      sensiblePerSqFt inp = sensiblePerSqFt (inp\<lparr>stories := 1\<rparr>) \<and>
      runLoadCalc inp = runLoadCalc (inp\<lparr>stories := 1\<rparr>)) \<and>
   (2 \<le> LoadCalcInput.stories inp \<longrightarrow>
      sensiblePerSqFt inp = sensiblePerSqFt (inp\<lparr>stories := 2\<rparr>) \<and>
      runLoadCalc inp = runLoadCalc (inp\<lparr>stories := 2\<rparr>)) \<and>
   (storiesFactor (LoadCalcInput.stories inp) = fl 1.08 \<longleftrightarrow> 2 \<le> LoadCalcInput.stories inp) \<and>
   fl 1.08 = 607985949695017 / 562949953421312 \<and>
   sensiblePerSqFt inp =
     fmul (fmul (fmul
       (fmul (fmul (fmul (basePerSqFt inp) (insulationFactor (insulation inp)))
          (windowFactor (LoadCalcInput.windows inp))) (orientationFactor (orientation inp)))
       (if 2 \<le> LoadCalcInput.stories inp then fl 1.08 else 1))
       (sidingFactor (LoadCalcInput.siding inp)))
       (ductFactor (ductsInAtticOrCrawl inp)) \<and>
   (0 < sqft inp \<longrightarrow>
      (\<exists>r. runLoadCalc inp = Inr r \<and>
        (\<bar>fmul (sensiblePerSqFt inp) (sqft inp)\<bar> < 2 ^ 1024 \<longrightarrow>
           sensibleBTUH r = Math_round (fmul (sensiblePerSqFt inp) (sqft inp))) \<and>
        (note_multi_story \<in> set (LoadCalcResult.notes' r) \<longleftrightarrow>
           2 \<le> LoadCalcInput.stories inp)))"
proof -
  have below: "LoadCalcInput.stories inp < 2 \<Longrightarrow>
      sensiblePerSqFt inp = sensiblePerSqFt (inp\<lparr>stories := 1\<rparr>) \<and>
      runLoadCalc inp = runLoadCalc (inp\<lparr>stories := 1\<rparr>)"
    by (simp add: runLoadCalc_def sensible_unrounded_def latent_unrounded_def total_unrounded_def
          recommendedTonnage_of_def rawTonnage_def summaryNote_def factorNotes_def
          sensiblePerSqFt_def basePerSqFt_def storiesFactor_def storiesNotes_def)
  have above: "2 \<le> LoadCalcInput.stories inp \<Longrightarrow>
      sensiblePerSqFt inp = sensiblePerSqFt (inp\<lparr>stories := 2\<rparr>) \<and>
      runLoadCalc inp = runLoadCalc (inp\<lparr>stories := 2\<rparr>)"
    by (simp add: runLoadCalc_def sensible_unrounded_def latent_unrounded_def total_unrounded_def
          recommendedTonnage_of_def rawTonnage_def summaryNote_def factorNotes_def
          sensiblePerSqFt_def basePerSqFt_def storiesFactor_def storiesNotes_def)
  have factor: "storiesFactor (LoadCalcInput.stories inp) = fl 1.08 \<longleftrightarrow>
      2 \<le> LoadCalcInput.stories inp"
    using literal_108 by (simp add: storiesFactor_def)
  have chain: "sensiblePerSqFt inp =
     fmul (fmul (fmul
       (fmul (fmul (fmul (basePerSqFt inp) (insulationFactor (insulation inp)))
          (windowFactor (LoadCalcInput.windows inp))) (orientationFactor (orientation inp)))
       (if 2 \<le> LoadCalcInput.stories inp then fl 1.08 else 1))
       (sidingFactor (LoadCalcInput.siding inp)))
       (ductFactor (ductsInAtticOrCrawl inp))"
    by (simp add: sensiblePerSqFt_def storiesFactor_def)
  have result: "0 < sqft inp \<Longrightarrow>
      (\<exists>r. runLoadCalc inp = Inr r \<and>
        (\<bar>fmul (sensiblePerSqFt inp) (sqft inp)\<bar> < 2 ^ 1024 \<longrightarrow>
           sensibleBTUH r = Math_round (fmul (sensiblePerSqFt inp) (sqft inp))) \<and>
        (note_multi_story \<in> set (LoadCalcResult.notes' r) \<longleftrightarrow>
           2 \<le> LoadCalcInput.stories inp))"
    using multi_story_in_factor_notes [of inp] multi_story_not_summary [of inp]
    by (simp add: runLoadCalc_def sensible_unrounded_def)
  from below above factor chain result literal_108 show ?thesis
    by (simp add: storiesFactor_def storiesNotes_def)
qed

theorem stories_factor_threshold_witness:
  "1 < LoadCalcInput.stories c9_input \<and> LoadCalcInput.stories c9_input < 2 \<and>
   storiesFactor (LoadCalcInput.stories c9_input) = 1 \<and>
   runLoadCalc c9_input = Inr c1_result \<and>
   note_multi_story \<notin> set (LoadCalcResult.notes' c1_result) \<and>
   0 < sqft c2_input \<and> 2 \<le> LoadCalcInput.stories c2_input \<and>
   storiesFactor (LoadCalcInput.stories c2_input) = 607985949695017 / 562949953421312 \<and>
   \<bar>fmul (sensiblePerSqFt c2_input) (sqft c2_input)\<bar> < 2 ^ 1024 \<and>
   (\<exists>r. runLoadCalc c2_input = Inr r \<and> sensibleBTUH r = 44083 \<and>
      note_multi_story \<in> set (LoadCalcResult.notes' r))"
proof -
  have between: "1 < LoadCalcInput.stories c9_input \<and> LoadCalcInput.stories c9_input < 2"
    by (simp add: c9_input_def)
  have same: "c9_input\<lparr>stories := 1\<rparr> = c1_input"
    by (simp add: c9_input_def c1_input_def)
  from stories_factor_threshold [of c9_input] between
  have "storiesFactor (LoadCalcInput.stories c9_input) = 1"
    and "runLoadCalc c9_input = runLoadCalc (c9_input\<lparr>stories := 1\<rparr>)"
    by blast+
  then have c9: "storiesFactor (LoadCalcInput.stories c9_input) = 1 \<and>
      runLoadCalc c9_input = Inr c1_result"
    by (simp add: same c1_run)
  have absent: "note_multi_story \<notin> set (LoadCalcResult.notes' c1_result)"
    by (simp add: c1_result_def note_multi_story_def)
  have pos: "0 < sqft c2_input" and two: "2 \<le> LoadCalcInput.stories c2_input"
    by (simp_all add: c2_input_def)
  have prod: "fmul (sensiblePerSqFt c2_input) (sqft c2_input) = 6058682902999203 / 137438953472"
    using c2_sensible by (simp only: sensible_unrounded_def)
  have in_range: "\<bar>fmul (sensiblePerSqFt c2_input) (sqft c2_input)\<bar> < 2 ^ 1024"
    by (simp add: prod)
  have rounded: "Math_round (fmul (sensiblePerSqFt c2_input) (sqft c2_input)) = 44083"
    by (simp add: prod Math_round_def)
  from stories_factor_threshold [of c2_input] two
  have "storiesFactor (LoadCalcInput.stories c2_input) = fl 1.08"
    and "fl 1.08 = 607985949695017 / 562949953421312"
    by blast+
  then have factor: "storiesFactor (LoadCalcInput.stories c2_input) =
      607985949695017 / 562949953421312"
    by (rule trans)
  from stories_factor_threshold [of c2_input] pos
  obtain r where run: "runLoadCalc c2_input = Inr r"
    and load: "\<bar>fmul (sensiblePerSqFt c2_input) (sqft c2_input)\<bar> < 2 ^ 1024 \<longrightarrow>
      sensibleBTUH r = Math_round (fmul (sensiblePerSqFt c2_input) (sqft c2_input))"
    and note_iff: "note_multi_story \<in> set (LoadCalcResult.notes' r) \<longleftrightarrow>
      2 \<le> LoadCalcInput.stories c2_input"
    by blast
  from load in_range rounded have "sensibleBTUH r = 44083"
    by (simp only:)
  moreover from note_iff two have "note_multi_story \<in> set (LoadCalcResult.notes' r)"
    by (simp only:)
  ultimately have c2: "\<exists>r. runLoadCalc c2_input = Inr r \<and> sensibleBTUH r = 44083 \<and>
      note_multi_story \<in> set (LoadCalcResult.notes' r)"
    using run by blast
  from between c9 absent pos two factor in_range c2 show ?thesis
    by blast
qed

section \<open>The equipment derivations\<close>




text \<open>
  C5. The AFUE backfill returns a record whose AFUE is already set exactly as it was
  given, and applying the backfill to its own result changes nothing, for an absent
  record as for a present one.
\<close>

theorem afue_backfill_idempotent:
  "(afue e \<noteq> None \<longrightarrow> applyAfueFromModelTable (Some e) = Some e) \<and>
   applyAfueFromModelTable (applyAfueFromModelTable equipment) = applyAfueFromModelTable equipment"
  by (auto simp add: applyAfueFromModelTable_def Let_def split: option.splits)

theorem afue_backfill_idempotent_witness:
  "afue trane \<noteq> None \<and> applyAfueFromModelTable (Some trane) = Some trane \<and>
   applyAfueFromModelTable (applyAfueFromModelTable (Some goodman_unread)) =
     Some (goodman_unread\<lparr>afue := Some 95, afueSource := Some ''model_lookup''\<rparr>)"
  using afue_backfill_idempotent [of trane "Some goodman_unread"]
  by (simp add: goodman_backfill) (simp add: trane_def)

text \<open>
  C6. For absent equipment the flags are absent. For a present record the flags carry
  at most one note and never both the mismatch note and the PVC note: the first is only
  added when the AFUE is set, the second only when it is not. When neither condition
  holds the result is the record with no mismatch and no notes.
\<close>

theorem flags_mutually_exclusive:
  "analyzeEquipmentFlags None = None \<and>
   (\<exists>f. analyzeEquipmentFlags (Some e) = Some f \<and>
      length (EquipmentFlags.notes' f) \<le> 1 \<and>
      \<not> (note_mismatch \<in> set (EquipmentFlags.notes' f) \<and> note_pvc \<in> set (EquipmentFlags.notes' f)) \<and>
      (note_mismatch \<in> set (EquipmentFlags.notes' f) \<longrightarrow> afue e \<noteq> None) \<and>
      (note_pvc \<in> set (EquipmentFlags.notes' f) \<longrightarrow> afue e = None) \<and>
      (\<not> mismatch_fires e \<and> \<not> pvc_fires e \<longrightarrow>
         f = \<lparr>afueVentMismatch = False, notes' = []\<rparr>))"
  using notes_differ
  by (auto simp add: analyzeEquipmentFlags_def mismatch_fires_def pvc_fires_def Let_def
        split: option.splits)

theorem flags_mutually_exclusive_witness:
  "\<not> mismatch_fires trane \<and> \<not> pvc_fires trane \<and>
   analyzeEquipmentFlags (Some trane) = Some \<lparr>afueVentMismatch = False, notes' = []\<rparr> \<and>
   analyzeEquipmentFlags (Some (trane\<lparr>afue := Some 95\<rparr>)) =
     Some \<lparr>afueVentMismatch = True, notes' = [note_mismatch]\<rparr> \<and>
   analyzeEquipmentFlags (Some (goodman_unread\<lparr>ventType := Some ''pvc''\<rparr>)) =
     Some \<lparr>afueVentMismatch = False, notes' = [note_pvc]\<rparr>"
proof -
  have quiet: "\<not> mismatch_fires trane \<and> \<not> pvc_fires trane"
    by (simp add: mismatch_fires_def pvc_fires_def trane_def)
  from flags_mutually_exclusive [of trane] quiet
  have "analyzeEquipmentFlags (Some trane) = Some \<lparr>afueVentMismatch = False, notes' = []\<rparr>"
    by auto
  moreover have "analyzeEquipmentFlags (Some (trane\<lparr>afue := Some 95\<rparr>)) =
      Some \<lparr>afueVentMismatch = True, notes' = [note_mismatch]\<rparr>"
    by (simp add: analyzeEquipmentFlags_def mismatch_fires_def pvc_fires_def trane_def)
  moreover have "analyzeEquipmentFlags (Some (goodman_unread\<lparr>ventType := Some ''pvc''\<rparr>)) =
      Some \<lparr>afueVentMismatch = False, notes' = [note_pvc]\<rparr>"
    by (simp add: analyzeEquipmentFlags_def mismatch_fires_def pvc_fires_def goodman_unread_def
          trane_def)
  ultimately show ?thesis using quiet by simp
qed

text \<open>
  C10. For every present equipment record the AFUE backfill returns a present record
  whose fields other than \<open>afue\<close> and \<open>afueSource\<close> are those of the input, whether the
  model number is found in the table or not.
\<close>

theorem afue_backfill_frame:
  "\<exists>e'. applyAfueFromModelTable (Some e) = Some e' \<and>
     equipmentType e' = equipmentType e \<and> manufacturer e' = manufacturer e \<and>
     modelNumber e' = modelNumber e \<and> serialNumber e' = serialNumber e \<and>
     nominalTonnage e' = nominalTonnage e \<and> inputBTUH e' = inputBTUH e \<and>
     outputBTUH e' = outputBTUH e \<and> seer e' = seer e \<and> seer2 e' = seer2 e \<and>
     hspf e' = hspf e \<and> hspf2 e' = hspf2 e \<and> refrigerant e' = refrigerant e \<and>
     heatStripKW e' = heatStripKW e \<and>
     EquipmentAnalysis.manufactureYear e' = EquipmentAnalysis.manufactureYear e \<and>
     stages e' = stages e \<and> ventType e' = ventType e"
  by (simp add: applyAfueFromModelTable_def Let_def split: option.splits)

section \<open>The exterior validator\<close>

text \<open>
  C7, as stated, fails. A present record with confidence 0.8, two stories, vinyl siding
  and windows reported as \<open>unclear\<close> has none of the three fields equal to \<open>unknown\<close>, yet
  the validator asks for the window amount.
\<close>

theorem validate_unclear_windows_counterexample:
  "confidence house_unclear = Some 0.8 \<and> (0.75 :: real) \<le> 0.8 \<and>
   ExteriorAnalysis.stories house_unclear = Some (StoriesNumber 2) \<and>
   ExteriorAnalysis.windows house_unclear \<noteq> ''unknown'' \<and>
   ExteriorAnalysis.siding house_unclear \<noteq> ''unknown'' \<and>
   validateExteriorAnalysis (Some house_unclear) =
     \<lparr>issues = [issue_windows], needsClarification = True\<rparr>"
  by (simp add: validateExteriorAnalysis_def house_unclear_def house_example_def
        confidence_low_def stories_undetermined_def windows_undetermined_def
        siding_undetermined_def)

text \<open>
  C7, amended. For every present record with confidence at least 0.75, stories neither
  absent nor \<open>unknown\<close>, windows none of \<open>unknown\<close>, the empty string and \<open>unclear\<close>, and
  siding neither \<open>unknown\<close> nor the empty string, the validator returns no issue and
  \<open>needsClarification = false\<close>. For every present record \<open>needsClarification\<close> is true
  exactly when the list of issues is not empty.
\<close>

theorem validate_present:
  "(confidence a = Some c \<and> 0.75 \<le> c \<and>
    ExteriorAnalysis.stories a \<noteq> None \<and>
    ExteriorAnalysis.stories a \<noteq> Some (StoriesString ''unknown'') \<and>
    ExteriorAnalysis.windows a \<notin> {''unknown'', [], ''unclear''} \<and>
    ExteriorAnalysis.siding a \<notin> {''unknown'', []} \<longrightarrow>
      validateExteriorAnalysis (Some a) = \<lparr>issues = [], needsClarification = False\<rparr>) \<and>
   (needsClarification (validateExteriorAnalysis (Some a)) \<longleftrightarrow>
      issues (validateExteriorAnalysis (Some a)) \<noteq> [])"
  by (simp add: validateExteriorAnalysis_def Let_def confidence_low_def
        stories_undetermined_def windows_undetermined_def siding_undetermined_def)

theorem validate_present_witness:
  "confidence house_example = Some 0.8 \<and> (0.75 :: real) \<le> 0.8 \<and>
   validateExteriorAnalysis (Some house_example) = \<lparr>issues = [], needsClarification = False\<rparr> \<and>
   needsClarification (validateExteriorAnalysis (Some house_unclear)) \<and>
   issues (validateExteriorAnalysis (Some house_unclear)) \<noteq> []"
proof -
  have "issues (validateExteriorAnalysis (Some house_unclear)) \<noteq> []"
    by (simp add: validateExteriorAnalysis_def house_unclear_def house_example_def
          windows_undetermined_def)
  then show ?thesis
    using validate_present [of house_example "0.8"] validate_present [of house_unclear "0.8"]
    by (simp add: house_example_def)
qed

text \<open>
  C8. When the analysis is absent the validator returns exactly one issue, the request to
  upload a clearer photo, and \<open>needsClarification\<close> is true; none of the four checks on
  the fields contributes anything.
\<close>

theorem validate_absent:
  "validateExteriorAnalysis None = \<lparr>issues = [issue_reupload], needsClarification = True\<rparr>"
  by (simp add: validateExteriorAnalysis_def)

end
